theory Spec2Isabelle
  imports Complex_Main
begin

section \<open>Hierarchy view: category and confidence of a ranking entry\<close>

text \<open>
  \<^verbatim>\<open>HierarchyVisualization.tsx\<close> receives the ranking from the backend and, in
  \<^verbatim>\<open>loadData\<close>, annotates every entry with a category and a confidence score.
  A JavaScript \<^verbatim>\<open>number\<close> is modelled as a real number.
\<close>

datatype category = lame | intermediate | healthy

text \<open>An entry as the backend sends it (the fields of \<^verbatim>\<open>RankingItem\<close> before annotation).\<close>

record hierarchy_item =
  video_id :: string
  rank :: real
  elo_rating :: real
  elo_uncertainty :: real
  davids_score :: real
  wins :: real
  losses :: real
  ties :: real
  total_comparisons :: real
  win_rate :: real

text \<open>\<^verbatim>\<open>RankingItem\<close>: the entry with the two fields \<^verbatim>\<open>loadData\<close> adds.\<close>

record RankingItem = hierarchy_item +
  category :: category
  confidence :: real

text \<open>
  \<^verbatim>\<open>const compConfidence = Math.min(1, comparisons / 20)\<close>,
  \<^verbatim>\<open>const uncertaintyConfidence = 1 - (uncertainty / 350)\<close>,
  \<^verbatim>\<open>return (compConfidence + uncertaintyConfidence) / 2\<close>.
\<close>

definition calculateConfidence :: "real \<Rightarrow> real \<Rightarrow> real" where
  "calculateConfidence comparisons uncertainty =
     (let compConfidence = min 1 (comparisons / 20);
          uncertaintyConfidence = 1 - (uncertainty / 350)
      in (compConfidence + uncertaintyConfidence) / 2)"

text \<open>
  \<^verbatim>\<open>item.elo_rating > 1550 ? 'lame' : item.elo_rating < 1450 ? 'healthy' : 'intermediate'\<close>
\<close>

definition categorize :: "real \<Rightarrow> category" where
  "categorize r = (if r > 1550 then lame else if r < 1450 then healthy else intermediate)"

definition annotate :: "hierarchy_item \<Rightarrow> RankingItem" where
  "annotate item =
     hierarchy_item.extend item
       (RankingItem.fields (categorize (elo_rating item))
          (calculateConfidence (total_comparisons item) (elo_uncertainty item)))"

text \<open>\<^verbatim>\<open>hierarchyData.ranking.map((item) => ({...item, category: ..., confidence: ...}))\<close>\<close>

definition categorizedRanking :: "hierarchy_item list \<Rightarrow> RankingItem list" where
  "categorizedRanking ranking = map annotate ranking"

text \<open>A subject that has never been compared: no comparisons, the initial uncertainty.\<close>

definition fresh_item :: "string \<Rightarrow> hierarchy_item" where
  "fresh_item v =
     \<lparr>video_id = v, rank = 1, elo_rating = 1500, elo_uncertainty = 350, davids_score = 0,
      wins = 0, losses = 0, ties = 0, total_comparisons = 0, win_rate = 0\<rparr>"


section \<open>The Rating Updater\<close>

text \<open>
  The service that updates the ratings is not among the sources: only the table
  \<^verbatim>\<open>video_elo_ratings\<close> it writes to is (rating 1500 and uncertainty 350 by default,
  the counters 0). The definitions of this section follow section 4.4 of the specification.
\<close>

text \<open>
  Modelled from the spec: the state of a Subject the Rating Updater keeps (rating mean,
  rating uncertainty, win/loss/tie counts); the updater itself is missing from the sources.
\<close>

record subject =
  rating_mean :: real
  rating_uncertainty :: real
  win_count :: nat
  loss_count :: nat
  tie_count :: nat

text \<open>
  Modelled from the spec: a Subject on its first appearance, rating mean 1500 and rating
  uncertainty 350 (the defaults of \<^verbatim>\<open>video_elo_ratings\<close> as well).
\<close>

definition initial_subject :: subject where
  "initial_subject =
     \<lparr>rating_mean = 1500, rating_uncertainty = 350, win_count = 0, loss_count = 0, tie_count = 0\<rparr>"

text \<open>
  Modelled from the spec: the tunable constants of the Rating Updater, which the spec names
  without fixing them. The learning rate K is a function of the current uncertainty of the
  subject that moves and of its opponent's; the magnitude of a degree is the degree divided by
  \<open>degree_scale\<close> (for example 6); the uncertainty decays by the factor \<open>uncertainty_decay\<close>
  toward \<open>uncertainty_floor\<close> (for example 50).
\<close>

record rating_config =
  learning_rate :: "real \<Rightarrow> real \<Rightarrow> real"
  degree_scale :: real
  uncertainty_decay :: real
  uncertainty_floor :: real

text \<open>
  Modelled from the spec: a live comparison as it reaches the Rating Updater, with the rater
  weight snapshotted at submission.
\<close>

record live_comparison =
  subject_a :: string
  subject_b :: string
  lc_winner :: int
  lc_degree :: int
  lc_rater_weight :: real
  lc_submitted_at :: nat

text \<open>
  Modelled from the spec: a RatingHistoryEntry, a subject's rating and comparison count at a
  point in time.
\<close>

record rating_history_entry =
  rh_subject :: string
  rh_rating :: real
  rh_comparison_count :: nat
  rh_recorded_at :: nat

text \<open>
  Modelled from the spec: the ratings the updater maintains, one Subject per id that has
  appeared, and the append-only rating history.
\<close>

record rating_state =
  subjects :: "string \<rightharpoonup> subject"
  rating_history :: "rating_history_entry list"

text \<open>
  Modelled from the spec: step 1, the expected outcome is the logistic function of the rating
  difference between the two subjects (the standard Elo expectation).
\<close>

definition expected_outcome :: "real \<Rightarrow> real \<Rightarrow> real" where
  "expected_outcome own other = 1 / (1 + 10 powr ((other - own) / 400))"

text \<open>Modelled from the spec: clipping to [0,1].\<close>

definition clip01 :: "real \<Rightarrow> real" where
  "clip01 x = max 0 (min 1 x)"

text \<open>
  Modelled from the spec: the sign of the outcome for the subject on side 1 or 2, given the
  winner code (0 is a tie).
\<close>

definition outcome_sign :: "int \<Rightarrow> int \<Rightarrow> real" where
  "outcome_sign side w = (if w = 0 then 0 else if w = side then 1 else - 1)"

text \<open>
  Modelled from the spec: step 2, the actual outcome score: a tie gives 0.5 to both; a winner
  shifts the base 0.5 by the sign times the degree-scaled magnitude, clipped to [0,1].
\<close>

definition actual_outcome :: "rating_config \<Rightarrow> int \<Rightarrow> live_comparison \<Rightarrow> real" where
  "actual_outcome cfg side c =
     (if lc_winner c = 0 then 1 / 2
      else clip01 (1 / 2 + outcome_sign side (lc_winner c)
                             * (real_of_int (lc_degree c) / degree_scale cfg)))"

text \<open>Modelled from the spec: step 3, rating delta = K * rater weight * (actual - expected).\<close>

definition rating_delta ::
  "rating_config \<Rightarrow> subject \<Rightarrow> subject \<Rightarrow> int \<Rightarrow> live_comparison \<Rightarrow> real" where
  "rating_delta cfg own other side c =
     learning_rate cfg (rating_uncertainty own) (rating_uncertainty other) * lc_rater_weight c
       * (actual_outcome cfg side c - expected_outcome (rating_mean own) (rating_mean other))"

text \<open>Modelled from the spec: step 4, the uncertainty decays by a fixed factor toward the floor.\<close>

definition decay_uncertainty :: "rating_config \<Rightarrow> real \<Rightarrow> real" where
  "decay_uncertainty cfg u = max (uncertainty_floor cfg) (u * uncertainty_decay cfg)"

text \<open>
  Modelled from the spec: step 4 for one subject: the rating moves by the delta, the
  uncertainty decays, and the win, loss or tie counter is incremented.
\<close>

definition update_subject ::
  "rating_config \<Rightarrow> subject \<Rightarrow> subject \<Rightarrow> int \<Rightarrow> live_comparison \<Rightarrow> subject" where
  "update_subject cfg own other side c =
     own\<lparr>rating_mean := rating_mean own + rating_delta cfg own other side c,
         rating_uncertainty := decay_uncertainty cfg (rating_uncertainty own),
         win_count := win_count own + (if lc_winner c = side then 1 else 0),
         loss_count := loss_count own + (if lc_winner c \<noteq> 0 \<and> lc_winner c \<noteq> side then 1 else 0),
         tie_count := tie_count own + (if lc_winner c = 0 then 1 else 0)\<rparr>"

text \<open>
  Modelled from the spec: the current state of a subject; one that has not appeared yet is
  created with the initial defaults.
\<close>

definition subject_of :: "rating_state \<Rightarrow> string \<Rightarrow> subject" where
  "subject_of st v = (case subjects st v of None \<Rightarrow> initial_subject | Some s \<Rightarrow> s)"

text \<open>Modelled from the spec: the history entry appended for a subject after an update.\<close>

definition history_entry :: "string \<Rightarrow> subject \<Rightarrow> nat \<Rightarrow> rating_history_entry" where
  "history_entry v s t =
     \<lparr>rh_subject = v, rh_rating = rating_mean s,
      rh_comparison_count = win_count s + loss_count s + tie_count s, rh_recorded_at = t\<rparr>"

text \<open>
  Modelled from the spec: the Rating Updater on one live comparison: both subjects are
  updated from their states before the comparison, and a history entry is appended for each.
\<close>

definition rating_update :: "rating_config \<Rightarrow> rating_state \<Rightarrow> live_comparison \<Rightarrow> rating_state" where
  "rating_update cfg st c =
     (let a = subject_of st (subject_a c);
          b = subject_of st (subject_b c);
          a' = update_subject cfg a b 1 c;
          b' = update_subject cfg b a 2 c
      in st\<lparr>subjects := (subjects st)(subject_a c \<mapsto> a', subject_b c \<mapsto> b'),
            rating_history := rating_history st
              @ [history_entry (subject_a c) a' (lc_submitted_at c),
                 history_entry (subject_b c) b' (lc_submitted_at c)]\<rparr>)"

text \<open>Modelled from the spec: live comparisons applied one after the other, no recalculation between.\<close>

fun live_updates :: "rating_config \<Rightarrow> rating_state \<Rightarrow> live_comparison list \<Rightarrow> rating_state" where
  "live_updates cfg st [] = st"
| "live_updates cfg st (c # cs) = live_updates cfg (rating_update cfg st c) cs"

text \<open>Modelled from the spec: the state before any comparison: no subject has appeared.\<close>

definition no_ratings :: rating_state where
  "no_ratings = \<lparr>subjects = Map.empty, rating_history = []\<rparr>"

text \<open>Modelled from the spec: the rating uncertainty of a subject in a state.\<close>

definition uncertainty_of :: "rating_state \<Rightarrow> string \<Rightarrow> real" where
  "uncertainty_of st v = rating_uncertainty (subject_of st v)"

text \<open>
  Modelled from the spec: a configuration whose floor lies between 0 and the initial
  uncertainty and whose decay factor lies between 0 and 1.
\<close>

definition valid_config :: "rating_config \<Rightarrow> bool" where
  "valid_config cfg \<longleftrightarrow>
     0 \<le> uncertainty_floor cfg \<and> uncertainty_floor cfg \<le> 350 \<and>
     0 \<le> uncertainty_decay cfg \<and> uncertainty_decay cfg \<le> 1"

text \<open>
  Modelled from the spec: a configuration with the spec's example values (degree over 6,
  floor 50), a decay factor of 0.95 and a learning rate of 32 scaled by the share of the
  initial uncertainty that is left.
\<close>

definition example_config :: rating_config where
  "example_config =
     \<lparr>learning_rate = (\<lambda>own other. 32 * (own / 350)), degree_scale = 6,
      uncertainty_decay = 19 / 20, uncertainty_floor = 50\<rparr>"

text \<open>Modelled from the spec: scenario 1, a rater of weight 1 finds A more severe than B, degree 2.\<close>

definition scenario_1 :: live_comparison where
  "scenario_1 =
     \<lparr>subject_a = ''A'', subject_b = ''B'', lc_winner = 1, lc_degree = 2, lc_rater_weight = 1,
      lc_submitted_at = 1\<rparr>"


section \<open>The confidence score of the hierarchy view\<close>

lemma annotate_confidence:
  "confidence (annotate item) = calculateConfidence (total_comparisons item) (elo_uncertainty item)"
  by (simp add: annotate_def hierarchy_item.extend_def RankingItem.fields_def)

lemma calculateConfidence_unit:
  assumes "0 \<le> u" "u \<le> 350" "0 \<le> c"
  shows "0 \<le> calculateConfidence c u \<and> calculateConfidence c u \<le> 1"
proof -
  have a: "0 \<le> min 1 (c / 20)" "min 1 (c / 20) \<le> 1" using assms by simp_all
  have b: "0 \<le> 1 - u / 350" "1 - u / 350 \<le> 1" using assms by simp_all
  show ?thesis using a b by (simp add: calculateConfidence_def Let_def)
qed

text \<open>
  C10: for every entry of the ranking the view shows, the confidence is the arithmetic mean of
  \<open>min 1 (total_comparisons / 20)\<close> and \<open>1 - elo_uncertainty / 350\<close>; it lies in [0,1]
  whenever the uncertainty lies in [0,350] and the comparison count is not negative; and it
  is exactly 0 for a fresh subject (no comparisons, uncertainty 350).
\<close>

theorem confidence_of_ranking_entry:
  "i < length ranking \<Longrightarrow>
     confidence (categorizedRanking ranking ! i) =
       (min 1 (total_comparisons (ranking ! i) / 20) + (1 - elo_uncertainty (ranking ! i) / 350)) / 2
     \<and> (0 \<le> elo_uncertainty (ranking ! i) \<and> elo_uncertainty (ranking ! i) \<le> 350
          \<and> 0 \<le> total_comparisons (ranking ! i)
        \<longrightarrow> 0 \<le> confidence (categorizedRanking ranking ! i)
            \<and> confidence (categorizedRanking ranking ! i) \<le> 1)
     \<and> (total_comparisons (ranking ! i) = 0 \<and> elo_uncertainty (ranking ! i) = 350
        \<longrightarrow> confidence (categorizedRanking ranking ! i) = 0)"
proof -
  assume i: "i < length ranking"
  have e: "confidence (categorizedRanking ranking ! i) =
      calculateConfidence (total_comparisons (ranking ! i)) (elo_uncertainty (ranking ! i))"
    using i by (simp add: categorizedRanking_def annotate_confidence)
  show ?thesis
    unfolding e
    using calculateConfidence_unit [of "elo_uncertainty (ranking ! i)" "total_comparisons (ranking ! i)"]
    by (auto simp: calculateConfidence_def Let_def)
qed

text \<open>
  C10 at a ranking of one fresh subject: the entry exists, its confidence is 0 and within [0,1].
\<close>

theorem confidence_of_ranking_entry_witness:
  "0 < length [fresh_item ''cow_0017'']
   \<and> confidence (categorizedRanking [fresh_item ''cow_0017''] ! 0) = 0
   \<and> 0 \<le> confidence (categorizedRanking [fresh_item ''cow_0017''] ! 0)
   \<and> confidence (categorizedRanking [fresh_item ''cow_0017''] ! 0) \<le> 1"
  using confidence_of_ranking_entry [of 0 "[fresh_item ''cow_0017'']"]
  by (simp add: fresh_item_def)


section \<open>The uncertainty of a subject under live comparisons\<close>

lemma decay_uncertainty_bounds:
  assumes "valid_config cfg" "uncertainty_floor cfg \<le> u"
  shows "decay_uncertainty cfg u \<le> u" "uncertainty_floor cfg \<le> decay_uncertainty cfg u"
proof -
  have "0 \<le> u" using assms by (simp add: valid_config_def)
  then have "u * uncertainty_decay cfg \<le> u"
    using assms(1) by (simp add: valid_config_def mult_left_le)
  then show "decay_uncertainty cfg u \<le> u" using assms(2) by (simp add: decay_uncertainty_def)
  show "uncertainty_floor cfg \<le> decay_uncertainty cfg u" by (simp add: decay_uncertainty_def)
qed

lemma uncertainty_of_rating_update:
  "uncertainty_of (rating_update cfg st c) v =
     (if v = subject_b c then decay_uncertainty cfg (uncertainty_of st v)
      else if v = subject_a c then decay_uncertainty cfg (uncertainty_of st v)
      else uncertainty_of st v)"
  by (simp add: uncertainty_of_def rating_update_def Let_def subject_of_def update_subject_def)

lemma rating_update_step:
  assumes "valid_config cfg" "\<forall>v. uncertainty_floor cfg \<le> uncertainty_of st v"
  shows "uncertainty_of (rating_update cfg st c) v \<le> uncertainty_of st v"
    and "uncertainty_floor cfg \<le> uncertainty_of (rating_update cfg st c) v"
  using assms decay_uncertainty_bounds [of cfg "uncertainty_of st v"]
  by (auto simp: uncertainty_of_rating_update)

lemma live_updates_bounds:
  assumes "valid_config cfg"
  shows "(\<forall>v. uncertainty_floor cfg \<le> uncertainty_of st v) \<Longrightarrow>
      uncertainty_of (live_updates cfg st cs) v \<le> uncertainty_of st v
      \<and> uncertainty_floor cfg \<le> uncertainty_of (live_updates cfg st cs) v"
proof (induction cs arbitrary: st)
  case Nil
  then show ?case by simp
next
  case (Cons c cs)
  have fl: "\<forall>v. uncertainty_floor cfg \<le> uncertainty_of (rating_update cfg st c) v"
    using rating_update_step(2) [OF assms Cons.prems] by blast
  have "uncertainty_of (live_updates cfg (rating_update cfg st c) cs) v
          \<le> uncertainty_of (rating_update cfg st c) v
        \<and> uncertainty_floor cfg \<le> uncertainty_of (live_updates cfg (rating_update cfg st c) cs) v"
    using Cons.IH [OF fl] .
  moreover have "uncertainty_of (rating_update cfg st c) v \<le> uncertainty_of st v"
    using rating_update_step(1) [OF assms Cons.prems] .
  ultimately show ?case by simp
qed

lemma live_updates_append:
  "live_updates cfg st (cs @ cs') = live_updates cfg (live_updates cfg st cs) cs'"
  by (induction cs arbitrary: st) simp_all

lemma no_ratings_floor:
  "valid_config cfg \<Longrightarrow> uncertainty_floor cfg \<le> uncertainty_of no_ratings v"
  by (simp add: valid_config_def uncertainty_of_def subject_of_def no_ratings_def initial_subject_def)

lemma valid_example_config: "valid_config example_config"
  by (simp add: valid_config_def example_config_def)

text \<open>
  C3: for every subject \<open>v\<close>, along any sequence of live comparisons applied one after the
  other from the first comparison on, with no recalculation in between, the rating uncertainty
  after the longer sequence \<open>cs @ cs'\<close> is at most the uncertainty after its beginning \<open>cs\<close>,
  and it is never below the configured floor.
\<close>

theorem uncertainty_non_increasing_and_floor_bounded:
  assumes "valid_config cfg"
  shows "uncertainty_of (live_updates cfg no_ratings (cs @ cs')) v
           \<le> uncertainty_of (live_updates cfg no_ratings cs) v
         \<and> uncertainty_floor cfg \<le> uncertainty_of (live_updates cfg no_ratings (cs @ cs')) v"
proof -
  have "\<forall>v. uncertainty_floor cfg \<le> uncertainty_of (live_updates cfg no_ratings cs) v"
    using live_updates_bounds [OF assms, of no_ratings cs] no_ratings_floor [OF assms] by blast
  then show ?thesis
    using live_updates_bounds [OF assms, of "live_updates cfg no_ratings cs" cs' v]
    by (simp add: live_updates_append)
qed

text \<open>
  C3 with the example configuration: scenario 1 applied once and then once more; the
  uncertainty of A does not increase from the first to the second state and stays at or
  above the floor 50.
\<close>

theorem uncertainty_non_increasing_and_floor_bounded_witness:
  "valid_config example_config
   \<and> uncertainty_of (live_updates example_config no_ratings ([scenario_1] @ [scenario_1])) ''A''
       \<le> uncertainty_of (live_updates example_config no_ratings [scenario_1]) ''A''
   \<and> 50 \<le> uncertainty_of (live_updates example_config no_ratings ([scenario_1] @ [scenario_1])) ''A''"
proof -
  have fl: "uncertainty_floor example_config = 50" by (simp add: example_config_def)
  from uncertainty_non_increasing_and_floor_bounded
    [OF valid_example_config, of "[scenario_1]" "[scenario_1]" "''A''"]
  show ?thesis by (simp add: fl valid_example_config)
qed

end
